theory Spec2Isabelle
  imports Complex_Main "HOL-Library.Multiset" "HOL-Library.Sublist" "HOL-Library.AList"
    "HOL-Library.Log_Nat"
begin

section \<open>Data model\<close>

text \<open>
  The enums \<open>PerformanceClass\<close> and \<open>PerformanceLevel\<close>, as \<open>types.ts\<close> declares them
  and as \<open>DroidDexModule.getConstants\<close> lists them.
\<close>

datatype PerformanceClass = CPU | MEMORY | NETWORK | STORAGE | BATTERY

datatype PerformanceLevel = EXCELLENT | HIGH | AVERAGE | LOW

text \<open>The enum constant's \<open>name\<close>, which is also the string the TypeScript enum carries.\<close>

fun className :: "PerformanceClass \<Rightarrow> string" where
  "className CPU = ''CPU''"
| "className MEMORY = ''MEMORY''"
| "className NETWORK = ''NETWORK''"
| "className STORAGE = ''STORAGE''"
| "className BATTERY = ''BATTERY''"

text \<open>
  What the Kotlin module reads from the device on each call: \<open>Build.VERSION.SDK_INT\<close>,
  the outcome of \<open>checkSelfPermission(ACCESS_NETWORK_STATE)\<close>, the figures of
  \<open>Runtime.getRuntime()\<close> and the clock. The integers are Kotlin \<open>Int\<close> and \<open>Long\<close>
  values; the module only compares them with constants and adds scores below 100, so no
  arithmetic on them can wrap and they are modelled as \<open>int\<close>.
\<close>

record device =
  SDK_INT :: int
  networkStateGranted :: bool
  maxMemory :: int
  totalMemory :: int
  freeMemory :: int
  availableProcessors :: int
  currentTimeMillis :: int

section \<open>Fallback scoring (\<open>getFallbackPerformanceLevel\<close>)\<close>

text \<open>
  The three \<open>when\<close> blocks that add to \<open>score\<close>, in the order of the source, and the
  final \<open>when\<close> that maps the score to a level.
\<close>

definition memoryScore :: "int \<Rightarrow> int" where
  "memoryScore m =
     (if m \<ge> 4000000000 then 40
      else if m \<ge> 2000000000 then 30
      else if m \<ge> 1000000000 then 20
      else 10)"

definition cpuScore :: "int \<Rightarrow> int" where
  "cpuScore p =
     (if p \<ge> 8 then 30
      else if p \<ge> 4 then 25
      else if p \<ge> 2 then 15
      else 5)"

definition versionScore :: "int \<Rightarrow> int" where
  "versionScore v =
     (if v \<ge> 30 then 30
      else if v \<ge> 28 then 25
      else if v \<ge> 26 then 20
      else if v \<ge> 23 then 15
      else 10)"

definition fallbackScore :: "device \<Rightarrow> int" where
  "fallbackScore dev =
     (let score = 0;
          score = score + memoryScore (maxMemory dev);
          score = score + cpuScore (availableProcessors dev);
          score = score + versionScore (SDK_INT dev)
      in score)"

definition levelOfScore :: "int \<Rightarrow> PerformanceLevel" where
  "levelOfScore score =
     (if score \<ge> 85 then EXCELLENT
      else if score \<ge> 65 then HIGH
      else if score \<ge> 45 then AVERAGE
      else LOW)"

text \<open>The parameter \<open>classes\<close> is never read by the source function.\<close>

definition getFallbackPerformanceLevel :: "device \<Rightarrow> PerformanceClass list \<Rightarrow> PerformanceLevel" where
  "getFallbackPerformanceLevel dev classes = levelOfScore (fallbackScore dev)"

section \<open>The native module: parsing, capability filtering, results\<close>

text \<open>
  A thrown \<open>Exception\<close> is modelled by its \<open>message\<close>, which may be \<open>null\<close>. A string
  template renders a \<open>null\<close> message as the text \<open>null\<close>.
\<close>

datatype exn = Exception (getMessage: "string option")

fun messageText :: "exn \<Rightarrow> string" where
  "messageText (Exception None) = ''null''"
| "messageText (Exception (Some m)) = m"

text \<open>
  The promise handed to a \<open>@ReactMethod\<close>: settled by \<open>promise.resolve(value)\<close> or by
  \<open>promise.reject(code, message)\<close>.
\<close>

datatype 'a promise = is_Resolve: Resolve (resolved: 'a) | is_Reject: Reject (code: string) (msg: string)

definition NETWORK_MONITORING_MIN_API :: int where
  "NETWORK_MONITORING_MIN_API = 23"

definition BATTERY_STATS_MIN_API :: int where
  "BATTERY_STATS_MIN_API = 21"

text \<open>\<open>PerformanceClass.valueOf\<close> throws \<open>IllegalArgumentException\<close> on any other string.\<close>

definition valueOf :: "string \<Rightarrow> exn + PerformanceClass" where
  "valueOf s =
     (if s = ''CPU'' then Inr CPU
      else if s = ''MEMORY'' then Inr MEMORY
      else if s = ''NETWORK'' then Inr NETWORK
      else if s = ''STORAGE'' then Inr STORAGE
      else if s = ''BATTERY'' then Inr BATTERY
      else Inl (Exception (Some (''No enum constant com.blinkit.droiddex.PerformanceClass.'' @ s))))"

text \<open>
  \<open>parsePerformanceClasses\<close>: the loop over the array, left to right; the first name
  that \<open>valueOf\<close> refuses ends it with the exception.
\<close>

fun parsePerformanceClasses :: "string list \<Rightarrow> exn + PerformanceClass list" where
  "parsePerformanceClasses [] = Inr []"
| "parsePerformanceClasses (s # rest) =
     (case valueOf s of
        Inl e \<Rightarrow> Inl e
      | Inr performanceClass \<Rightarrow>
          (case parsePerformanceClasses rest of
             Inl e \<Rightarrow> Inl e
           | Inr parsed \<Rightarrow> Inr (performanceClass # parsed)))"

text \<open>
  One element of the array given to the weighted calls, as the module reads it:
  \<open>param.getString("performanceClass")\<close> and \<open>param.getDouble("weight")\<close>. The second
  call returns a \<open>Double\<close> or throws, when the key is missing or its value is not a
  number. The module narrows the \<open>Double\<close> with \<open>toFloat\<close> and from then on only
  carries the \<open>Float\<close> along. The types of \<open>Double\<close> and \<open>Float\<close> values are the type
  variables \<open>'d\<close> and \<open>'f\<close>, and the narrowing is the parameter \<open>toFloat\<close> of every
  function that parses weights, so that nothing is assumed about floating-point numbers.
\<close>

record 'd WeightedParam =
  getString_performanceClass :: string
  getDouble_weight :: "exn + 'd"

text \<open>
  The loop of \<open>parseWeightedPerformanceClasses\<close>, element by element in the order of the
  source: read the class name, read and narrow the weight, then \<open>valueOf\<close>.
\<close>

fun parseWeightedPerformanceClasses ::
  "('d \<Rightarrow> 'f) \<Rightarrow> 'd WeightedParam list \<Rightarrow> exn + (PerformanceClass \<times> 'f) list" where
  "parseWeightedPerformanceClasses toFloat [] = Inr []"
| "parseWeightedPerformanceClasses toFloat (param # rest) =
     (let s = getString_performanceClass param in
      case getDouble_weight param of
        Inl e \<Rightarrow> Inl e
      | Inr d \<Rightarrow>
          (let w = toFloat d in
           case valueOf s of
             Inl e \<Rightarrow> Inl e
           | Inr c \<Rightarrow>
               (case parseWeightedPerformanceClasses toFloat rest of
                  Inl e \<Rightarrow> Inl e
                | Inr parsed \<Rightarrow> Inr ((c, w) # parsed))))"

text \<open>The two capability filters; each repeats the same \<open>when\<close> in the source.\<close>

definition filterSupportedPerformanceClasses ::
  "device \<Rightarrow> PerformanceClass list \<Rightarrow> PerformanceClass list" where
  "filterSupportedPerformanceClasses dev classes =
     filter (\<lambda>c. case c of
          NETWORK \<Rightarrow> SDK_INT dev \<ge> NETWORK_MONITORING_MIN_API \<and> networkStateGranted dev
        | BATTERY \<Rightarrow> SDK_INT dev \<ge> BATTERY_STATS_MIN_API
        | CPU \<Rightarrow> True
        | MEMORY \<Rightarrow> True
        | STORAGE \<Rightarrow> True) classes"

definition filterSupportedWeightedPerformanceClasses ::
  "device \<Rightarrow> (PerformanceClass \<times> 'f) list \<Rightarrow> (PerformanceClass \<times> 'f) list" where
  "filterSupportedWeightedPerformanceClasses dev weightedClasses =
     filter (\<lambda>(c, _). case c of
          NETWORK \<Rightarrow> SDK_INT dev \<ge> NETWORK_MONITORING_MIN_API \<and> networkStateGranted dev
        | BATTERY \<Rightarrow> SDK_INT dev \<ge> BATTERY_STATS_MIN_API
        | CPU \<Rightarrow> True
        | MEMORY \<Rightarrow> True
        | STORAGE \<Rightarrow> True) weightedClasses"

definition getFallbackWeightedPerformanceLevel ::
  "device \<Rightarrow> (PerformanceClass \<times> 'f) list \<Rightarrow> PerformanceLevel" where
  "getFallbackWeightedPerformanceLevel dev weightedClasses =
     (let classes = map fst weightedClasses in getFallbackPerformanceLevel dev classes)"

text \<open>
  The entries of the \<open>metrics\<close> map. The numbers are \<open>Long\<close> and \<open>Int\<close> readings widened
  to doubles, or the constant \<open>0.0\<close>; they are kept as integers.
\<close>

datatype metric =
    CpuMetrics int int int
  | MemoryMetrics int int int
  | BatteryMetrics int bool
  | NetworkMetrics string int int
  | StorageMetrics int

definition putMetric :: "device \<Rightarrow> PerformanceClass \<Rightarrow> (string \<rightharpoonup> metric) \<Rightarrow> (string \<rightharpoonup> metric)" where
  "putMetric dev c m =
     (case c of
        CPU \<Rightarrow> m(''cpu'' \<mapsto> CpuMetrics (totalMemory dev) (availableProcessors dev) 0)
      | MEMORY \<Rightarrow> m(''memory'' \<mapsto> MemoryMetrics (maxMemory dev)
                       (maxMemory dev - totalMemory dev + freeMemory dev) (freeMemory dev))
      | BATTERY \<Rightarrow> m(''battery'' \<mapsto> BatteryMetrics 0 False)
      | NETWORK \<Rightarrow> m(''network'' \<mapsto> NetworkMetrics ''UNKNOWN'' 0 0)
      | STORAGE \<Rightarrow> m(''storage'' \<mapsto> StorageMetrics 0))"

definition createMetrics :: "device \<Rightarrow> PerformanceClass list \<Rightarrow> (string \<rightharpoonup> metric)" where
  "createMetrics dev classes = fold (putMetric dev) classes Map.empty"

text \<open>
  The result object, with the keys of the source. \<open>unsupportedClasses\<close> is absent
  (\<open>None\<close>) when the native module finds nothing unsupported.
\<close>

record PerformanceResult =
  level :: PerformanceLevel
  metrics :: "string \<rightharpoonup> metric"
  timestamp :: int
  supportedClasses :: "string list"
  unsupportedClasses :: "string list option"

text \<open>
  Kotlin's \<open>original - supportedClasses.toSet()\<close>: the elements of \<open>original\<close>, in their
  order, that are not in the set.
\<close>

definition listMinus :: "'a list \<Rightarrow> 'a list \<Rightarrow> 'a list" where
  "listMinus original elements = filter (\<lambda>it. it \<notin> set elements) original"

definition createPerformanceResult ::
  "device \<Rightarrow> PerformanceLevel \<Rightarrow> PerformanceClass list \<Rightarrow> PerformanceClass list option
     \<Rightarrow> PerformanceResult" where
  "createPerformanceResult dev lvl supported originalClasses =
     \<lparr> level = lvl,
       metrics = createMetrics dev supported,
       timestamp = currentTimeMillis dev,
       supportedClasses = map className supported,
       unsupportedClasses =
         (case originalClasses of
            None \<Rightarrow> None
          | Some original \<Rightarrow>
              (let unsupported = listMinus original supported
               in if unsupported \<noteq> [] then Some (map className unsupported) else None)) \<rparr>"

text \<open>The classes a result names as unsupported; an absent key names none.\<close>

definition unsupportedList :: "PerformanceResult \<Rightarrow> string list" where
  "unsupportedList r = (case unsupportedClasses r of None \<Rightarrow> [] | Some xs \<Rightarrow> xs)"

section \<open>The native module: one-shot evaluation\<close>

text \<open>
  The droid-dex library is not part of the repository. What it does on a call is a
  parameter: each of its two entry points returns a level or throws.
\<close>

record 'f DroidDex =
  ddGetPerformanceLevel :: "PerformanceClass list \<Rightarrow> exn + PerformanceLevel"
  ddGetWeightedPerformanceLevel :: "(PerformanceClass \<times> 'f) list \<Rightarrow> exn + PerformanceLevel"

text \<open>
  The scoring calls an evaluation makes, in order: the calls into the library and the
  calls of the module's own fallback.
\<close>

datatype 'f scoring_call =
    DroidDexGetPerformanceLevel "PerformanceClass list"
  | DroidDexGetWeightedPerformanceLevel "(PerformanceClass \<times> 'f) list"
  | FallbackPerformanceLevel "PerformanceClass list"
  | FallbackWeightedPerformanceLevel "(PerformanceClass \<times> 'f) list"

fun isFallbackCall :: "'f scoring_call \<Rightarrow> bool" where
  "isFallbackCall (FallbackPerformanceLevel _) = True"
| "isFallbackCall (FallbackWeightedPerformanceLevel _) = True"
| "isFallbackCall _ = False"

text \<open>
  \<open>getPerformanceLevel\<close> and \<open>getWeightedPerformanceLevel\<close> of the native module. The
  argument \<open>initialized\<close> of the model is the companion flag \<open>isInitialized\<close>; \<open>ensureInitialized\<close> throws when it is unset, and the
  outer \<open>catch\<close> turns that and a parse failure into \<open>PERFORMANCE_ERROR\<close>. The inner
  \<open>try\<close> swallows a failure of the library and scores by the fallback.
\<close>

definition getPerformanceLevel ::
  "bool \<Rightarrow> device \<Rightarrow> 'f DroidDex \<Rightarrow> string list
     \<Rightarrow> PerformanceResult promise \<times> 'f scoring_call list" where
  "getPerformanceLevel initialized dev dd performanceClasses =
     (if \<not> initialized then
        (Reject ''PERFORMANCE_ERROR''
           (''Failed to get performance level: '' @ ''DroidDex not initialized. Call initialize() first.''), [])
      else case parsePerformanceClasses performanceClasses of
        Inl e \<Rightarrow>
          (Reject ''PERFORMANCE_ERROR'' (''Failed to get performance level: '' @ messageText e), [])
      | Inr classes \<Rightarrow>
          (let supported = filterSupportedPerformanceClasses dev classes in
           if supported = [] then
             (Reject ''NO_SUPPORTED_CLASSES''
                ''None of the requested performance classes are supported on this device'', [])
           else case ddGetPerformanceLevel dd supported of
             Inr lvl \<Rightarrow>
               (Resolve (createPerformanceResult dev lvl supported (Some classes)),
                [DroidDexGetPerformanceLevel supported])
           | Inl e \<Rightarrow>
               (Resolve (createPerformanceResult dev
                           (getFallbackPerformanceLevel dev supported) supported (Some classes)),
                [DroidDexGetPerformanceLevel supported, FallbackPerformanceLevel supported])))"

definition getWeightedPerformanceLevel ::
  "('d \<Rightarrow> 'f) \<Rightarrow> bool \<Rightarrow> device \<Rightarrow> 'f DroidDex \<Rightarrow> 'd WeightedParam list
     \<Rightarrow> PerformanceResult promise \<times> 'f scoring_call list" where
  "getWeightedPerformanceLevel toFloat initialized dev dd weightedParams =
     (if \<not> initialized then
        (Reject ''PERFORMANCE_ERROR''
           (''Failed to get weighted performance level: ''
              @ ''DroidDex not initialized. Call initialize() first.''), [])
      else case parseWeightedPerformanceClasses toFloat weightedParams of
        Inl e \<Rightarrow>
          (Reject ''PERFORMANCE_ERROR''
             (''Failed to get weighted performance level: '' @ messageText e), [])
      | Inr weightedClasses \<Rightarrow>
          (let supportedWeighted = filterSupportedWeightedPerformanceClasses dev weightedClasses in
           if supportedWeighted = [] then
             (Reject ''NO_SUPPORTED_CLASSES''
                ''None of the requested performance classes are supported on this device'', [])
           else
             (let (lvl, calls) =
                (case ddGetWeightedPerformanceLevel dd supportedWeighted of
                   Inr l \<Rightarrow> (l, [DroidDexGetWeightedPerformanceLevel supportedWeighted])
                 | Inl e \<Rightarrow>
                     (getFallbackWeightedPerformanceLevel dev supportedWeighted,
                      [DroidDexGetWeightedPerformanceLevel supportedWeighted,
                       FallbackWeightedPerformanceLevel supportedWeighted]));
                  performanceClasses = map fst supportedWeighted;
                  originalClasses = map fst weightedClasses
              in (Resolve (createPerformanceResult dev lvl performanceClasses (Some originalClasses)),
                  calls))))"

section \<open>The native module: monitoring sessions\<close>

text \<open>
  Each session owns a \<open>Handler\<close> on the main looper and a \<open>Runnable\<close>. Both are
  objects, compared by identity, so each gets a reference number when it is created. The
  runnable is a closure over the arguments of \<open>startPerformanceMonitoring\<close> and over its
  handler.
\<close>

record 'f Runnable =
  runnableRef :: nat
  r_monitoringId :: string
  r_classes :: "PerformanceClass list option"
  r_weightedClasses :: "(PerformanceClass \<times> 'f) list option"
  r_intervalMs :: int
  r_handler :: nat

text \<open>
  A pending message of the main looper: posted through the handler \<open>target\<close>, to run
  \<open>callback\<close> once \<open>delayMillis\<close> have passed. Time itself is not modelled: a tick is
  the delivery of one pending message, and a runnable with no pending message never runs.
\<close>

record 'f Message =
  target :: nat
  callback :: "'f Runnable"
  delayMillis :: int

datatype event_params = ResultParams PerformanceResult | ErrorParams string

text \<open>
  The state of the module: the companion flag, the two \<open>ConcurrentHashMap\<close>s (kept as
  association lists, since \<open>stopAllMonitoring\<close> iterates over them), the looper's pending
  messages, the events emitted to JavaScript so far, and the next free reference.
\<close>

record 'f DroidDexModule =
  isInitialized :: bool
  monitoringHandlers :: "(string \<times> nat) list"
  monitoringRunnables :: "(string \<times> 'f Runnable) list"
  messageQueue :: "'f Message list"
  emitted :: "(string \<times> event_params) list"
  nextRef :: nat

definition sendEvent ::
  "string \<Rightarrow> event_params \<Rightarrow> 'f DroidDexModule \<Rightarrow> 'f DroidDexModule" where
  "sendEvent eventName params st = st\<lparr>emitted := emitted st @ [(eventName, params)]\<rparr>"

definition postDelayed ::
  "nat \<Rightarrow> 'f Runnable \<Rightarrow> int \<Rightarrow> 'f DroidDexModule \<Rightarrow> 'f DroidDexModule" where
  "postDelayed h r delay st =
     st\<lparr>messageQueue := messageQueue st @ [\<lparr>target = h, callback = r, delayMillis = delay\<rparr>]\<rparr>"

definition removeCallbacks ::
  "nat \<Rightarrow> 'f Runnable \<Rightarrow> 'f DroidDexModule \<Rightarrow> 'f DroidDexModule" where
  "removeCallbacks h r st =
     st\<lparr>messageQueue :=
          filter (\<lambda>m. \<not> (target m = h \<and> runnableRef (callback m) = runnableRef r))
            (messageQueue st)\<rparr>"

text \<open>
  The body of the runnable, \<open>run()\<close>. The \<open>try\<close> block asks the library for the level,
  sends the result event and only then posts the runnable again; the \<open>catch\<close> block sends
  the error event and nothing else. \<open>weightedClasses!!\<close> throws when both lists are
  \<open>null\<close>.
\<close>

definition run ::
  "device \<Rightarrow> 'f DroidDex \<Rightarrow> 'f Runnable \<Rightarrow> 'f DroidDexModule \<Rightarrow> 'f DroidDexModule" where
  "run dev dd this st =
     (let attempt =
        (case r_classes this of
           Some classes \<Rightarrow>
             (case ddGetPerformanceLevel dd classes of
                Inl e \<Rightarrow> Inl e
              | Inr lvl \<Rightarrow> Inr (lvl, classes))
         | None \<Rightarrow>
             (case r_weightedClasses this of
                None \<Rightarrow> Inl (Exception None)
              | Some weightedClasses \<Rightarrow>
                  (case ddGetWeightedPerformanceLevel dd
                          (map (\<lambda>it. (fst it, snd it)) weightedClasses) of
                     Inl e \<Rightarrow> Inl e
                   | Inr lvl \<Rightarrow> Inr (lvl, map fst weightedClasses))))
      in case attempt of
           Inr (lvl, performanceClasses) \<Rightarrow>
             postDelayed (r_handler this) this (r_intervalMs this)
               (sendEvent (''DroidDex_Performance_'' @ r_monitoringId this)
                  (ResultParams
                     (createPerformanceResult dev lvl performanceClasses (Some performanceClasses)))
                  st)
         | Inl e \<Rightarrow>
             sendEvent (''DroidDex_Error_'' @ r_monitoringId this)
               (ErrorParams (case getMessage e of Some m \<Rightarrow> m | None \<Rightarrow> ''Unknown error''))
               st)"

text \<open>The looper delivers the pending message at position \<open>n\<close>: it leaves the queue and runs.\<close>

definition dispatchMessage ::
  "device \<Rightarrow> 'f DroidDex \<Rightarrow> nat \<Rightarrow> 'f DroidDexModule \<Rightarrow> 'f DroidDexModule" where
  "dispatchMessage dev dd n st =
     (if n < length (messageQueue st) then
        run dev dd (callback (messageQueue st ! n))
          (st\<lparr>messageQueue := take n (messageQueue st) @ drop (Suc n) (messageQueue st)\<rparr>)
      else st)"

definition startPerformanceMonitoring ::
  "string \<Rightarrow> PerformanceClass list option \<Rightarrow> (PerformanceClass \<times> 'f) list option \<Rightarrow> int
     \<Rightarrow> 'f DroidDexModule \<Rightarrow> 'f DroidDexModule" where
  "startPerformanceMonitoring monitoringId classes weightedClasses intervalMs st =
     (let h = nextRef st;
          runnable = \<lparr> runnableRef = nextRef st + 1, r_monitoringId = monitoringId,
                       r_classes = classes, r_weightedClasses = weightedClasses,
                       r_intervalMs = intervalMs, r_handler = h \<rparr>
      in postDelayed h runnable 0
           (st\<lparr> monitoringHandlers := AList.update monitoringId h (monitoringHandlers st),
                monitoringRunnables := AList.update monitoringId runnable (monitoringRunnables st),
                nextRef := nextRef st + 2 \<rparr>))"

text \<open>
  \<open>startMonitoring\<close> and \<open>startWeightedMonitoring\<close>. The argument \<open>uuid\<close> of the model is
  the string \<open>UUID.randomUUID()\<close> returns on this call.
\<close>

definition startMonitoring ::
  "string \<Rightarrow> string list \<Rightarrow> int \<Rightarrow> 'f DroidDexModule
     \<Rightarrow> string promise \<times> 'f DroidDexModule" where
  "startMonitoring uuid performanceClasses intervalMs st =
     (if \<not> isInitialized st then
        (Reject ''MONITORING_ERROR''
           (''Failed to start monitoring: '' @ ''DroidDex not initialized. Call initialize() first.''), st)
      else case parsePerformanceClasses performanceClasses of
        Inl e \<Rightarrow> (Reject ''MONITORING_ERROR'' (''Failed to start monitoring: '' @ messageText e), st)
      | Inr classes \<Rightarrow>
          (Resolve uuid, startPerformanceMonitoring uuid (Some classes) None intervalMs st))"


definition stopMonitoring ::
  "string \<Rightarrow> 'f DroidDexModule \<Rightarrow> bool promise \<times> 'f DroidDexModule" where
  "stopMonitoring monitoringId st =
     (let h = map_of (monitoringHandlers st) monitoringId;
          st1 = st\<lparr>monitoringHandlers := AList.delete monitoringId (monitoringHandlers st)\<rparr>;
          r = map_of (monitoringRunnables st1) monitoringId;
          st2 = st1\<lparr>monitoringRunnables := AList.delete monitoringId (monitoringRunnables st1)\<rparr>
      in case (h, r) of
           (Some handler, Some runnable) \<Rightarrow> (Resolve True, removeCallbacks handler runnable st2)
         | _ \<Rightarrow> (Resolve False, st2))"

definition stopAllMonitoring :: "'f DroidDexModule \<Rightarrow> bool promise \<times> 'f DroidDexModule" where
  "stopAllMonitoring st =
     (let st1 = fold (\<lambda>(_, handler) s.
                   fold (\<lambda>(_, runnable) s'. removeCallbacks handler runnable s')
                     (monitoringRunnables st) s)
                 (monitoringHandlers st) st
      in (Resolve True, st1\<lparr>monitoringHandlers := [], monitoringRunnables := []\<rparr>))"

text \<open>A session is registered when both maps hold its id.\<close>

definition registered :: "'f DroidDexModule \<Rightarrow> string \<Rightarrow> bool" where
  "registered st monitoringId =
     (map_of (monitoringHandlers st) monitoringId \<noteq> None
      \<and> map_of (monitoringRunnables st) monitoringId \<noteq> None)"

text \<open>The two maps hold the same ids; every operation of the module keeps it so.\<close>

definition inSync :: "'f DroidDexModule \<Rightarrow> bool" where
  "inSync st = (fst ` set (monitoringHandlers st) = fst ` set (monitoringRunnables st))"

text \<open>The pending messages that would run the runnable of the session \<open>monitoringId\<close>.\<close>

definition pendingTicks :: "'f DroidDexModule \<Rightarrow> string \<Rightarrow> 'f Message list" where
  "pendingTicks st monitoringId =
     filter (\<lambda>m. r_monitoringId (callback m) = monitoringId) (messageQueue st)"

text \<open>The class names a session was started with, in the order of the request.\<close>

definition requestedOf :: "'f Runnable \<Rightarrow> string list" where
  "requestedOf this =
     (case r_classes this of
        Some classes \<Rightarrow> map className classes
      | None \<Rightarrow>
          (case r_weightedClasses this of
             Some weightedClasses \<Rightarrow> map (className \<circ> fst) weightedClasses
           | None \<Rightarrow> []))"

section \<open>The TypeScript facade (\<open>index.ts\<close>)\<close>

text \<open>
  The module-level variables of \<open>index.ts\<close>. A listener is a JavaScript function; the
  model names it by a number and records every call of it, with the argument, in
  \<open>invoked\<close>. \<open>eventEmitter\<close> is \<open>null\<close> off Android; otherwise it holds the
  subscriptions of React Native's \<open>NativeEventEmitter\<close>, in the order they were added:
  \<open>addListener\<close> appends one, an emitted event calls every subscription of its name,
  \<open>removeAllListeners\<close> drops the subscriptions of a name. The two callbacks that
  \<open>index.ts\<close> subscribes are closures over the monitoring id.
\<close>

datatype emitter_callback = PerformanceCallback string | ErrorCallback string

record Module_ts =
  OS :: string
  eventEmitter :: "(string \<times> emitter_callback) list option"
  performanceListeners :: "string \<rightharpoonup> nat"
  errorListeners :: "string \<rightharpoonup> nat"
  isProductionDisabled :: bool
  invoked :: "(nat \<times> event_params) list"

definition loadModule :: "string \<Rightarrow> Module_ts" where
  "loadModule os =
     \<lparr> OS = os,
       eventEmitter = (if os = ''android'' then Some [] else None),
       performanceListeners = Map.empty,
       errorListeners = Map.empty,
       isProductionDisabled = False,
       invoked = [] \<rparr>"

definition disableForProduction :: "bool \<Rightarrow> Module_ts \<Rightarrow> Module_ts" where
  "disableForProduction disabled st = st\<lparr>isProductionDisabled := disabled\<rparr>"

definition addPerformanceListener :: "string \<Rightarrow> nat \<Rightarrow> Module_ts \<Rightarrow> Module_ts" where
  "addPerformanceListener monitoringId listener st =
     (if isProductionDisabled st \<or> OS st \<noteq> ''android'' \<or> eventEmitter st = None then
        st\<lparr>performanceListeners := (performanceListeners st)(monitoringId \<mapsto> listener)\<rparr>
      else
        st\<lparr>performanceListeners := (performanceListeners st)(monitoringId \<mapsto> listener),
           eventEmitter :=
             map_option (\<lambda>subs. subs @ [(''DroidDex_Performance_'' @ monitoringId,
                                          PerformanceCallback monitoringId)])
               (eventEmitter st)\<rparr>)"

definition removePerformanceListener :: "string \<Rightarrow> Module_ts \<Rightarrow> Module_ts" where
  "removePerformanceListener monitoringId st =
     (let st1 = st\<lparr>performanceListeners := (performanceListeners st)(monitoringId := None)\<rparr>
      in if OS st \<noteq> ''android'' \<or> eventEmitter st = None \<or> isProductionDisabled st then st1
         else st1\<lparr>eventEmitter :=
                    map_option (filter (\<lambda>(t, _). t \<noteq> ''DroidDex_Performance_'' @ monitoringId))
                      (eventEmitter st)\<rparr>)"

definition addErrorListener :: "string \<Rightarrow> nat \<Rightarrow> Module_ts \<Rightarrow> Module_ts" where
  "addErrorListener monitoringId listener st =
     (if isProductionDisabled st \<or> OS st \<noteq> ''android'' \<or> eventEmitter st = None then
        st\<lparr>errorListeners := (errorListeners st)(monitoringId \<mapsto> listener)\<rparr>
      else
        st\<lparr>errorListeners := (errorListeners st)(monitoringId \<mapsto> listener),
           eventEmitter :=
             map_option (\<lambda>subs. subs @ [(''DroidDex_Error_'' @ monitoringId,
                                          ErrorCallback monitoringId)])
               (eventEmitter st)\<rparr>)"

definition removeErrorListener :: "string \<Rightarrow> Module_ts \<Rightarrow> Module_ts" where
  "removeErrorListener monitoringId st =
     (let st1 = st\<lparr>errorListeners := (errorListeners st)(monitoringId := None)\<rparr>
      in if OS st \<noteq> ''android'' \<or> eventEmitter st = None \<or> isProductionDisabled st then st1
         else st1\<lparr>eventEmitter :=
                    map_option (filter (\<lambda>(t, _). t \<noteq> ''DroidDex_Error_'' @ monitoringId))
                      (eventEmitter st)\<rparr>)"

text \<open>
  What a subscribed callback does when the emitter calls it: it looks the stored
  listener up at that moment and calls it if there is one.
\<close>

fun invokeCallback :: "emitter_callback \<Rightarrow> event_params \<Rightarrow> Module_ts \<Rightarrow> Module_ts" where
  "invokeCallback (PerformanceCallback monitoringId) params st =
     (case performanceListeners st monitoringId of
        Some storedListener \<Rightarrow> st\<lparr>invoked := invoked st @ [(storedListener, params)]\<rparr>
      | None \<Rightarrow> st)"
| "invokeCallback (ErrorCallback monitoringId) params st =
     (case errorListeners st monitoringId of
        Some storedListener \<Rightarrow> st\<lparr>invoked := invoked st @ [(storedListener, params)]\<rparr>
      | None \<Rightarrow> st)"

text \<open>One event arriving from the native side under the name \<open>eventName\<close>.\<close>

definition emit :: "string \<Rightarrow> event_params \<Rightarrow> Module_ts \<Rightarrow> Module_ts" where
  "emit eventName params st =
     (case eventEmitter st of
        None \<Rightarrow> st
      | Some subs \<Rightarrow>
          fold (\<lambda>(t, cb) s. if t = eventName then invokeCallback cb params s else s) subs st)"

text \<open>
  The names that the import statements of \<open>index.ts\<close> bind at run time. The first
  statement imports three values from \<open>react-native\<close>. The second is an \<open>import type\<close>:
  it is erased when the file is compiled and binds nothing at run time, and
  \<open>export * from './types'\<close> re-exports without binding a local name either. So
  \<open>PerformanceLevel\<close>, which \<open>types.ts\<close> declares as an enum, is not a value inside
  \<open>index.ts\<close>.
\<close>

definition valueImports :: "string list" where
  "valueImports = [''NativeModules'', ''Platform'', ''NativeEventEmitter'']"

definition typeImports :: "string list" where
  "typeImports =
     [''PerformanceClass'', ''PerformanceLevel'', ''PerformanceResult'',
      ''WeightedPerformanceClass'', ''DroidDexConfig'', ''PerformanceListener'', ''ErrorListener'']"

datatype js_error = ReferenceError string

text \<open>
  An element of the list given to the weighted calls of the facade; \<open>weight\<close> is a
  JavaScript number, which the facade copies and never inspects.
\<close>

record WeightedPerformanceClass =
  performanceClass :: string
  weight :: rat

text \<open>
  A one-shot call of the facade ends in one of three ways: it returns a promise
  already resolved with a result, it returns the promise of the native call, or it
  throws before it returns any promise. The classes are the strings of the TypeScript
  enum; \<open>now\<close> is \<open>Date.now()\<close>.
\<close>

datatype native_request =
    NativeGetPerformanceLevel "string list"
  | NativeGetWeightedPerformanceLevel "WeightedPerformanceClass list"

datatype outcome_ts =
    PromiseResolve PerformanceResult
  | NativeCall native_request
  | Throws js_error

text \<open>
  \<open>getDefaultPerformanceResult\<close> builds an object literal whose first property is
  \<open>level: PerformanceLevel.HIGH\<close>. Evaluating the identifier \<open>PerformanceLevel\<close> throws a
  \<open>ReferenceError\<close> unless the name is bound at run time; the other properties come
  after it.
\<close>

definition getDefaultPerformanceResult ::
  "int \<Rightarrow> string list option \<Rightarrow> js_error + PerformanceResult" where
  "getDefaultPerformanceResult now requestedClasses =
     (if ''PerformanceLevel'' \<in> set valueImports then
        Inr \<lparr> level = HIGH,
              metrics = Map.empty,
              timestamp = now,
              supportedClasses = [],
              unsupportedClasses = Some (case requestedClasses of Some cs \<Rightarrow> cs | None \<Rightarrow> []) \<rparr>
      else Inl (ReferenceError ''PerformanceLevel''))"

definition getPerformanceLevel_ts :: "int \<Rightarrow> Module_ts \<Rightarrow> string list \<Rightarrow> outcome_ts" where
  "getPerformanceLevel_ts now st performanceClasses =
     (if isProductionDisabled st \<or> OS st \<noteq> ''android'' then
        (case getDefaultPerformanceResult now (Some performanceClasses) of
           Inl e \<Rightarrow> Throws e
         | Inr r \<Rightarrow> PromiseResolve r)
      else NativeCall (NativeGetPerformanceLevel performanceClasses))"

definition getWeightedPerformanceLevel_ts ::
  "int \<Rightarrow> Module_ts \<Rightarrow> WeightedPerformanceClass list \<Rightarrow> outcome_ts" where
  "getWeightedPerformanceLevel_ts now st weightedClasses =
     (let requestedClasses = map performanceClass weightedClasses in
      if isProductionDisabled st \<or> OS st \<noteq> ''android'' then
        (case getDefaultPerformanceResult now (Some requestedClasses) of
           Inl e \<Rightarrow> Throws e
         | Inr r \<Rightarrow> PromiseResolve r)
      else NativeCall (NativeGetWeightedPerformanceLevel
             (map (\<lambda>wc. \<lparr>performanceClass = performanceClass wc, weight = weight wc\<rparr>)
                weightedClasses)))"

section \<open>The capability rules in the words of the specification\<close>

text \<open>
  The specification's rule for one class: CPU, MEMORY and STORAGE are always supported;
  NETWORK needs the platform version to reach the network-monitoring threshold and the
  network-state permission; BATTERY needs the platform version to reach the battery-stats
  threshold and no permission. The filters above are compared with it.
\<close>

definition classSupported :: "device \<Rightarrow> PerformanceClass \<Rightarrow> bool" where
  "classSupported dev c =
     (c \<in> {CPU, MEMORY, STORAGE}
      \<or> (c = NETWORK \<and> NETWORK_MONITORING_MIN_API \<le> SDK_INT dev \<and> networkStateGranted dev)
      \<or> (c = BATTERY \<and> BATTERY_STATS_MIN_API \<le> SDK_INT dev))"

section \<open>Example values\<close>

text \<open>
  Concrete inputs for the worked examples below: a library that throws on every call, a
  library that returns a fixed level, an initialised module with no session, and a
  device with API level 29, 4 cores and a 3GB heap ceiling that has not been granted the
  network-state permission.

  In the examples a \<open>Double\<close> is a rational number and the narrowing is \<open>binary32\<close>:
  rounding to the nearest number with a 24-bit significand and an exponent of at least
  -126, ties to the even significand, and infinity from \<open>2^128\<close> on. It returns 0, -1,
  1, 2 and 5 unchanged, turns 1/10 into 13421773/134217728 and the positive
  \<open>10^-50\<close> into 0.
\<close>

datatype float32 = Finite rat | Infinite bool

definition pow2 :: "int \<Rightarrow> rat" where
  "pow2 e = (if e \<ge> 0 then 2 ^ nat e else 1 / 2 ^ nat (- e))"

definition roundHalfEven :: "rat \<Rightarrow> int" where
  "roundHalfEven x =
     (let n = \<lfloor>x\<rfloor>; r = x - of_int n
      in if r < 1 / 2 then n else if r > 1 / 2 then n + 1 else if even n then n else n + 1)"

definition exponentOf :: "rat \<Rightarrow> int" where
  "exponentOf a =
     (let (n, d) = quotient_of a; k = bitlen n - bitlen d
      in if pow2 k \<le> a then k else k - 1)"

definition binary32 :: "rat \<Rightarrow> float32" where
  "binary32 q =
     (if q = 0 then Finite 0
      else let a = \<bar>q\<bar>;
               e = max (exponentOf a) (- 126);
               ulp = pow2 (e - 23);
               m = of_int (roundHalfEven (a / ulp)) * ulp
           in if m \<ge> pow2 128 then Infinite (q < 0)
              else Finite (if q < 0 then - m else m))"

definition libraryThrowing :: "string \<Rightarrow> float32 DroidDex" where
  "libraryThrowing m =
     \<lparr> ddGetPerformanceLevel = (\<lambda>_. Inl (Exception (Some m))),
       ddGetWeightedPerformanceLevel = (\<lambda>_. Inl (Exception (Some m))) \<rparr>"

definition libraryReturning :: "PerformanceLevel \<Rightarrow> float32 DroidDex" where
  "libraryReturning lvl =
     \<lparr> ddGetPerformanceLevel = (\<lambda>_. Inr lvl),
       ddGetWeightedPerformanceLevel = (\<lambda>_. Inr lvl) \<rparr>"

definition initialModule :: "float32 DroidDexModule" where
  "initialModule =
     \<lparr> isInitialized = True, monitoringHandlers = [], monitoringRunnables = [],
       messageQueue = [], emitted = [], nextRef = 0 \<rparr>"

definition exampleDevice :: device where
  "exampleDevice =
     \<lparr> SDK_INT = 29, networkStateGranted = False, maxMemory = 3000000000,
       totalMemory = 1000000000, freeMemory = 500000000, availableProcessors = 4,
       currentTimeMillis = 1700000000000 \<rparr>"

section \<open>Auxiliary facts\<close>

subsection \<open>Names and parsing\<close>

lemma inj_className: "inj className"
proof (rule injI)
  fix x y assume "className x = className y"
  then show "x = y" by (cases x; cases y) simp_all
qed

lemma valueOf_Inr: "valueOf s = Inr c \<Longrightarrow> s = className c"
  by (cases c) (simp_all add: valueOf_def split: if_splits)

lemma parse_names: "parsePerformanceClasses raw = Inr classes \<Longrightarrow> raw = map className classes"
  by (induction raw arbitrary: classes) (auto split: sum.splits dest: valueOf_Inr)



lemma parseWeighted_Inr:
  "parseWeightedPerformanceClasses toFloat params = Inr wcs
     \<Longrightarrow> parsePerformanceClasses (map getString_performanceClass params) = Inr (map fst wcs)"
  by (induction params arbitrary: wcs) (auto simp add: Let_def split: sum.splits)



subsection \<open>Filtering\<close>

lemma filterSupported_eq:
  "filterSupportedPerformanceClasses dev classes = filter (classSupported dev) classes"
  unfolding filterSupportedPerformanceClasses_def
  by (rule filter_cong [OF refl]) (simp add: classSupported_def split: PerformanceClass.splits)

lemma filterSupportedWeighted_eq:
  "filterSupportedWeightedPerformanceClasses dev ws = filter (\<lambda>p. classSupported dev (fst p)) ws"
  unfolding filterSupportedWeightedPerformanceClasses_def
  by (rule filter_cong [OF refl]) (auto simp add: classSupported_def split: PerformanceClass.splits)

lemma map_fst_filterSupportedWeighted:
  "map fst (filterSupportedWeightedPerformanceClasses dev ws)
     = filterSupportedPerformanceClasses dev (map fst ws)"
  by (simp add: filterSupported_eq filterSupportedWeighted_eq filter_map comp_def)


lemma listMinus_filter: "listMinus xs (filter P xs) = filter (\<lambda>x. \<not> P x) xs"
  unfolding listMinus_def by (rule filter_cong [OF refl]) simp

subsection \<open>The two lists of a result\<close>

lemma unsupportedList_create:
  "unsupportedList (createPerformanceResult dev lvl (filter P original) (Some original))
     = map className (filter (\<lambda>x. \<not> P x) original)"
  by (simp add: unsupportedList_def createPerformanceResult_def listMinus_filter Let_def)

lemma supportedClasses_create:
  "supportedClasses (createPerformanceResult dev lvl supported original) = map className supported"
  by (simp add: createPerformanceResult_def)

lemma partition_mset:
  "mset (map f (filter P xs)) + mset (map f (filter (\<lambda>x. \<not> P x) xs)) = mset (map f xs)"
  by (induction xs) simp_all

lemma partition_set:
  "set (map f (filter P xs)) \<union> set (map f (filter (\<lambda>x. \<not> P x) xs)) = f ` set xs"
  by auto

lemma partition_disjoint:
  "inj f \<Longrightarrow> set (map f (filter P xs)) \<inter> set (map f (filter (\<lambda>x. \<not> P x) xs)) = {}"
  by (auto dest: injD)

subsection \<open>One-shot evaluation\<close>


lemma fallback_calls_weighted:
  "length (filter isFallbackCall (snd (getWeightedPerformanceLevel toFloat i dev dd params))) \<le> 1"
  by (simp add: getWeightedPerformanceLevel_def Let_def split: sum.splits prod.splits)

lemma fallback_calls_unweighted:
  "length (filter isFallbackCall (snd (getPerformanceLevel i dev dd raw))) \<le> 1"
  by (simp add: getPerformanceLevel_def Let_def split: sum.splits prod.splits)

subsection \<open>The session registry\<close>

lemma map_of_delete_same: "map_of (AList.delete k al) k = None"
  by (simp add: delete_notin_dom map_of_eq_None_iff)

lemma removeCallbacks_fields:
  "monitoringHandlers (removeCallbacks h r st) = monitoringHandlers st"
  "monitoringRunnables (removeCallbacks h r st) = monitoringRunnables st"
  "emitted (removeCallbacks h r st) = emitted st"
  "isInitialized (removeCallbacks h r st) = isInitialized st"
  by (simp_all add: removeCallbacks_def)

lemma stop_result: "fst (stopMonitoring mid st) = Resolve (registered st mid)"
  by (auto simp add: stopMonitoring_def registered_def Let_def split: option.splits)

lemma stop_unregisters: "\<not> registered (snd (stopMonitoring mid st)) mid"
  by (auto simp add: stopMonitoring_def registered_def Let_def removeCallbacks_def
      map_of_delete_same split: option.splits)

lemma stop_absent:
  assumes h: "map_of (monitoringHandlers st) mid = None"
    and r: "map_of (monitoringRunnables st) mid = None"
  shows "stopMonitoring mid st = (Resolve False, st)"
proof -
  have dh: "AList.delete mid (monitoringHandlers st) = monitoringHandlers st"
    using h by (simp add: map_of_eq_None_iff)
  have dr: "AList.delete mid (monitoringRunnables st) = monitoringRunnables st"
    using r by (simp add: map_of_eq_None_iff)
  show ?thesis
    by (simp add: stopMonitoring_def Let_def h r dh dr)
qed

lemma stop_twice:
  "stopMonitoring mid (snd (stopMonitoring mid st)) = (Resolve False, snd (stopMonitoring mid st))"
proof (rule stop_absent)
  show "map_of (monitoringHandlers (snd (stopMonitoring mid st))) mid = None"
    by (auto simp add: stopMonitoring_def Let_def removeCallbacks_def map_of_delete_same
        split: option.splits)
  show "map_of (monitoringRunnables (snd (stopMonitoring mid st))) mid = None"
    by (auto simp add: stopMonitoring_def Let_def removeCallbacks_def map_of_delete_same
        split: option.splits)
qed

lemma stopAll_empties:
  "monitoringHandlers (snd (stopAllMonitoring st)) = []
   \<and> monitoringRunnables (snd (stopAllMonitoring st)) = []
   \<and> fst (stopAllMonitoring st) = Resolve True"
  by (simp add: stopAllMonitoring_def Let_def)

lemma stop_after_stopAll:
  "fst (stopMonitoring mid (snd (stopAllMonitoring st))) = Resolve False"
  by (simp add: stop_result registered_def stopAll_empties)

subsection \<open>A tick of a session\<close>

lemma run_throwing:
  assumes "r_classes this = Some cs" and "ddGetPerformanceLevel dd cs = Inl e"
  shows "run dev dd this st
           = sendEvent (''DroidDex_Error_'' @ r_monitoringId this)
               (ErrorParams (case getMessage e of Some m \<Rightarrow> m | None \<Rightarrow> ''Unknown error'')) st"
  using assms by (simp add: run_def)

lemma run_returning:
  assumes "r_classes this = Some cs" and "ddGetPerformanceLevel dd cs = Inr lvl"
  shows "run dev dd this st
           = postDelayed (r_handler this) this (r_intervalMs this)
               (sendEvent (''DroidDex_Performance_'' @ r_monitoringId this)
                  (ResultParams (createPerformanceResult dev lvl cs (Some cs))) st)"
  using assms by (simp add: run_def)

lemma sendEvent_fields:
  "messageQueue (sendEvent n p st) = messageQueue st"
  "monitoringHandlers (sendEvent n p st) = monitoringHandlers st"
  "monitoringRunnables (sendEvent n p st) = monitoringRunnables st"
  "emitted (sendEvent n p st) = emitted st @ [(n, p)]"
  by (simp_all add: sendEvent_def)

lemma run_throwing_effects:
  assumes "r_classes this = Some cs" and "ddGetPerformanceLevel dd cs = Inl e"
  shows "messageQueue (run dev dd this st) = messageQueue st"
    and "monitoringHandlers (run dev dd this st) = monitoringHandlers st"
    and "monitoringRunnables (run dev dd this st) = monitoringRunnables st"
    and "emitted (run dev dd this st)
           = emitted st @ [(''DroidDex_Error_'' @ r_monitoringId this,
                ErrorParams (case getMessage e of Some m \<Rightarrow> m | None \<Rightarrow> ''Unknown error''))]"
  by (simp_all add: run_throwing [OF assms] sendEvent_fields)

subsection \<open>Results of an evaluation\<close>

lemma partition_lists:
  assumes s: "ss = map className (filter P classes)"
    and u: "us = map className (filter (\<lambda>c. \<not> P c) classes)"
    and r: "raw = map className classes"
  shows "set ss \<union> set us = set raw"
    and "set ss \<inter> set us = {}"
    and "mset ss + mset us = mset raw"
    and "distinct raw \<Longrightarrow> distinct (ss @ us)"
    and "distinct raw \<Longrightarrow> \<forall>c\<in>set raw. count_list (ss @ us) c = 1"
proof -
  show "set ss \<union> set us = set raw"
    unfolding s u r by auto
  show "set ss \<inter> set us = {}"
    unfolding s u by (rule partition_disjoint [OF inj_className])
  show m: "mset ss + mset us = mset raw"
    unfolding s u r by (rule partition_mset)
  show "distinct raw \<Longrightarrow> distinct (ss @ us)"
  proof -
    assume d: "distinct raw"
    have "mset (ss @ us) = mset raw" using m by simp
    then show "distinct (ss @ us)" using d by (metis mset_eq_imp_distinct_iff)
  qed
  show "distinct raw \<Longrightarrow> \<forall>c\<in>set raw. count_list (ss @ us) c = 1"
  proof
    fix c assume d: "distinct raw" and c: "c \<in> set raw"
    have e: "mset (ss @ us) = mset raw" using m by simp
    have "count (mset raw) c = 1" using d c by (simp add: distinct_count_atmost_1)
    then show "count_list (ss @ us) c = 1" using e by (simp flip: count_mset)
  qed
qed

lemma getPerformanceLevel_Resolve:
  assumes "fst (getPerformanceLevel i dev dd raw) = Resolve r"
  shows "\<exists>classes. raw = map className classes
           \<and> supportedClasses r = map className (filter (classSupported dev) classes)
           \<and> unsupportedList r = map className (filter (\<lambda>c. \<not> classSupported dev c) classes)"
proof (cases "parsePerformanceClasses raw")
  case (Inl e)
  with assms show ?thesis
    by (simp add: getPerformanceLevel_def split: if_splits)
next
  case (Inr classes)
  have raw: "raw = map className classes" using Inr by (rule parse_names)
  have "\<exists>lvl. r = createPerformanceResult dev lvl (filter (classSupported dev) classes) (Some classes)"
    using assms Inr
    by (auto simp add: getPerformanceLevel_def Let_def filterSupported_eq
        split: if_splits sum.splits)
  then obtain lvl where
    r: "r = createPerformanceResult dev lvl (filter (classSupported dev) classes) (Some classes)" ..
  show ?thesis
    using raw by (auto simp add: r supportedClasses_create unsupportedList_create)
qed

lemma getWeightedPerformanceLevel_Resolve:
  assumes "fst (getWeightedPerformanceLevel toFloat i dev dd params) = Resolve r"
  shows "\<exists>classes. map getString_performanceClass params = map className classes
           \<and> supportedClasses r = map className (filter (classSupported dev) classes)
           \<and> unsupportedList r = map className (filter (\<lambda>c. \<not> classSupported dev c) classes)"
proof (cases "parseWeightedPerformanceClasses toFloat params")
  case (Inl e)
  with assms show ?thesis
    by (simp add: getWeightedPerformanceLevel_def split: if_splits)
next
  case (Inr wcs)
  have raw: "map getString_performanceClass params = map className (map fst wcs)"
    using parseWeighted_Inr [OF Inr] by (rule parse_names)
  have "\<exists>lvl. r = createPerformanceResult dev lvl
                    (map fst (filterSupportedWeightedPerformanceClasses dev wcs))
                    (Some (map fst wcs))"
    using assms Inr
    by (auto simp add: getWeightedPerformanceLevel_def Let_def split: if_splits sum.splits)
  then obtain lvl where
    r: "r = createPerformanceResult dev lvl (filter (classSupported dev) (map fst wcs))
              (Some (map fst wcs))"
    by (auto simp add: map_fst_filterSupportedWeighted filterSupported_eq)
  show ?thesis
    using raw
    by (intro exI [of _ "map fst wcs"])
      (simp add: r supportedClasses_create unsupportedList_create)
qed

lemma listMinus_self: "listMinus xs xs = []"
  by (simp add: listMinus_def)

lemma tick_result:
  assumes "emitted (run dev dd this st) = emitted st @ [(n, ResultParams r)]"
  shows "supportedClasses r = requestedOf this \<and> unsupportedList r = []"
  using assms
  by (auto simp add: run_def requestedOf_def Let_def sendEvent_def postDelayed_def
      createPerformanceResult_def unsupportedList_def listMinus_self
      split: option.splits sum.splits)

subsection \<open>The example narrowing\<close>

lemma binary32_examples:
  "binary32 0 = Finite 0"
  "binary32 (- 1) = Finite (- 1)"
  "binary32 1 = Finite 1"
  "binary32 2 = Finite 2"
  "binary32 5 = Finite 5"
  "binary32 (1 / 10) = Finite (13421773 / 134217728)"
  "binary32 (1 / 10 ^ 50) = Finite 0"
  by code_simp+

subsection \<open>The two maps of the registry stay in step\<close>

lemma keys_delete: "fst ` set (AList.delete k al) = fst ` set al - {k}"
  by (induction al) auto

lemma inSync_initial: "inSync initialModule"
  by (simp add: inSync_def initialModule_def)

lemma inSync_start:
  "inSync st \<Longrightarrow> inSync (startPerformanceMonitoring mid cs ws n st)"
  by (simp add: inSync_def startPerformanceMonitoring_def postDelayed_def Let_def dom_update)

lemma inSync_stop: "inSync st \<Longrightarrow> inSync (snd (stopMonitoring mid st))"
  by (auto simp add: inSync_def stopMonitoring_def Let_def removeCallbacks_def keys_delete
      split: option.splits)

lemma inSync_stopAll: "inSync (snd (stopAllMonitoring st))"
  by (simp add: inSync_def stopAllMonitoring_def Let_def)

lemma inSync_run: "inSync st \<Longrightarrow> inSync (run dev dd this st)"
  by (auto simp add: inSync_def run_def Let_def sendEvent_def postDelayed_def
      split: option.splits sum.splits)

lemma inSync_dispatch: "inSync st \<Longrightarrow> inSync (dispatchMessage dev dd n st)"
proof -
  assume a: "inSync st"
  have "inSync (st\<lparr>messageQueue := q\<rparr>)" for q
    using a by (simp add: inSync_def)
  then show ?thesis
    using a by (simp add: dispatchMessage_def inSync_run)
qed

lemma registered_iff_key:
  "inSync st \<Longrightarrow> registered st mid \<longleftrightarrow> mid \<in> fst ` set (monitoringHandlers st)"
  by (auto simp add: inSync_def registered_def map_of_eq_None_iff)

section \<open>Theorems\<close>

subsection \<open>C1: the fallback score\<close>

text \<open>
  C1. The fallback awards 10/20/30/40 points for the heap ceiling (below 1GB, 1 to 2GB,
  2 to 4GB, 4GB and more; a GB is \<open>10^9\<close> bytes in the source), 5/15/25/30 points for the
  core count (1, 2 to 3, 4 to 7, 8 and more) and 10/15/20/25/30 points for the five
  version bands (below 23, 23 to 25, 26 to 27, 28 to 29, 30 and more); the score is
  their sum, and the level is EXCELLENT from 85, HIGH from 65, AVERAGE from 45 and LOW
  below. A device with a 3GB ceiling, 4 cores and version 29 scores 30+25+25 = 80 and
  is HIGH.
\<close>

theorem C1_fallback_scoring:
  fixes dev :: device and classes :: "PerformanceClass list"
  defines "m \<equiv> maxMemory dev" and "p \<equiv> availableProcessors dev" and "v \<equiv> SDK_INT dev"
      and "s \<equiv> fallbackScore dev"
  shows "((m < 1000000000 \<longrightarrow> memoryScore m = 10)
        \<and> (1000000000 \<le> m \<and> m < 2000000000 \<longrightarrow> memoryScore m = 20)
        \<and> (2000000000 \<le> m \<and> m < 4000000000 \<longrightarrow> memoryScore m = 30)
        \<and> (4000000000 \<le> m \<longrightarrow> memoryScore m = 40))
      \<and> ((p \<le> 1 \<longrightarrow> cpuScore p = 5)
        \<and> (2 \<le> p \<and> p \<le> 3 \<longrightarrow> cpuScore p = 15)
        \<and> (4 \<le> p \<and> p \<le> 7 \<longrightarrow> cpuScore p = 25)
        \<and> (8 \<le> p \<longrightarrow> cpuScore p = 30))
      \<and> ((v < 23 \<longrightarrow> versionScore v = 10)
        \<and> (23 \<le> v \<and> v \<le> 25 \<longrightarrow> versionScore v = 15)
        \<and> (26 \<le> v \<and> v \<le> 27 \<longrightarrow> versionScore v = 20)
        \<and> (28 \<le> v \<and> v \<le> 29 \<longrightarrow> versionScore v = 25)
        \<and> (30 \<le> v \<longrightarrow> versionScore v = 30))
      \<and> s = memoryScore m + cpuScore p + versionScore v
      \<and> ((85 \<le> s \<longrightarrow> getFallbackPerformanceLevel dev classes = EXCELLENT)
        \<and> (65 \<le> s \<and> s < 85 \<longrightarrow> getFallbackPerformanceLevel dev classes = HIGH)
        \<and> (45 \<le> s \<and> s < 65 \<longrightarrow> getFallbackPerformanceLevel dev classes = AVERAGE)
        \<and> (s < 45 \<longrightarrow> getFallbackPerformanceLevel dev classes = LOW))
      \<and> (m = 3000000000 \<and> p = 4 \<and> v = 29
            \<longrightarrow> s = 80 \<and> getFallbackPerformanceLevel dev classes = HIGH)"
proof -
  have mem: "(m < 1000000000 \<longrightarrow> memoryScore m = 10)
        \<and> (1000000000 \<le> m \<and> m < 2000000000 \<longrightarrow> memoryScore m = 20)
        \<and> (2000000000 \<le> m \<and> m < 4000000000 \<longrightarrow> memoryScore m = 30)
        \<and> (4000000000 \<le> m \<longrightarrow> memoryScore m = 40)"
    by (simp add: memoryScore_def)
  have cpu: "(p \<le> 1 \<longrightarrow> cpuScore p = 5)
        \<and> (2 \<le> p \<and> p \<le> 3 \<longrightarrow> cpuScore p = 15)
        \<and> (4 \<le> p \<and> p \<le> 7 \<longrightarrow> cpuScore p = 25)
        \<and> (8 \<le> p \<longrightarrow> cpuScore p = 30)"
    by (simp add: cpuScore_def)
  have ver: "(v < 23 \<longrightarrow> versionScore v = 10)
        \<and> (23 \<le> v \<and> v \<le> 25 \<longrightarrow> versionScore v = 15)
        \<and> (26 \<le> v \<and> v \<le> 27 \<longrightarrow> versionScore v = 20)
        \<and> (28 \<le> v \<and> v \<le> 29 \<longrightarrow> versionScore v = 25)
        \<and> (30 \<le> v \<longrightarrow> versionScore v = 30)"
    by (simp add: versionScore_def)
  have sum: "s = memoryScore m + cpuScore p + versionScore v"
    by (simp add: s_def m_def p_def v_def fallbackScore_def)
  have lvl: "(85 \<le> s \<longrightarrow> getFallbackPerformanceLevel dev classes = EXCELLENT)
        \<and> (65 \<le> s \<and> s < 85 \<longrightarrow> getFallbackPerformanceLevel dev classes = HIGH)
        \<and> (45 \<le> s \<and> s < 65 \<longrightarrow> getFallbackPerformanceLevel dev classes = AVERAGE)
        \<and> (s < 45 \<longrightarrow> getFallbackPerformanceLevel dev classes = LOW)"
    by (simp add: getFallbackPerformanceLevel_def levelOfScore_def s_def)
  have ex: "m = 3000000000 \<and> p = 4 \<and> v = 29
            \<longrightarrow> s = 80 \<and> getFallbackPerformanceLevel dev classes = HIGH"
    by (simp add: sum getFallbackPerformanceLevel_def levelOfScore_def s_def [symmetric]
        memoryScore_def cpuScore_def versionScore_def)
  from mem cpu ver sum lvl ex show ?thesis by blast
qed

theorem C1_fallback_scoring_witness:
  "fallbackScore \<lparr>SDK_INT = 29, networkStateGranted = False, maxMemory = 3000000000,
       totalMemory = 0, freeMemory = 0, availableProcessors = 4, currentTimeMillis = 0\<rparr> = 80
   \<and> getFallbackPerformanceLevel \<lparr>SDK_INT = 29, networkStateGranted = False,
       maxMemory = 3000000000, totalMemory = 0, freeMemory = 0, availableProcessors = 4,
       currentTimeMillis = 0\<rparr> [CPU, MEMORY] = HIGH"
  using C1_fallback_scoring [of "\<lparr>SDK_INT = 29, networkStateGranted = False,
       maxMemory = 3000000000, totalMemory = 0, freeMemory = 0, availableProcessors = 4,
       currentTimeMillis = 0\<rparr>" "[CPU, MEMORY]"]
  by simp

subsection \<open>C2: a tick that throws\<close>

text \<open>
  C2, at a concrete session. \<open>startMonitoring\<close> registers the session \<open>id-1\<close> for the
  class CPU with an interval of 1000 ms and posts its first tick. When the library
  throws on that tick, the module emits exactly one event, the error event of the session,
  and no result event; the session stays registered; but the runnable is not posted
  again, so no tick of the session is pending and none will ever run. On a tick where
  the library returns a level, the runnable is posted again with the delay 1000.
\<close>

theorem C2_failed_tick_is_not_rescheduled:
  "fst (startMonitoring ''id-1'' [''CPU''] 1000 initialModule) = Resolve ''id-1''
   \<and> map delayMillis (pendingTicks (snd (startMonitoring ''id-1'' [''CPU''] 1000 initialModule)) ''id-1'')
       = [0]
   \<and> emitted (dispatchMessage exampleDevice (libraryThrowing ''boom'') 0
                (snd (startMonitoring ''id-1'' [''CPU''] 1000 initialModule)))
       = [(''DroidDex_Error_id-1'', ErrorParams ''boom'')]
   \<and> registered (dispatchMessage exampleDevice (libraryThrowing ''boom'') 0
                   (snd (startMonitoring ''id-1'' [''CPU''] 1000 initialModule))) ''id-1''
   \<and> pendingTicks (dispatchMessage exampleDevice (libraryThrowing ''boom'') 0
                     (snd (startMonitoring ''id-1'' [''CPU''] 1000 initialModule))) ''id-1''
       = []
   \<and> messageQueue (dispatchMessage exampleDevice (libraryThrowing ''boom'') 0
                     (snd (startMonitoring ''id-1'' [''CPU''] 1000 initialModule)))
       = []
   \<and> map delayMillis
        (pendingTicks (dispatchMessage exampleDevice (libraryReturning HIGH) 0
                         (snd (startMonitoring ''id-1'' [''CPU''] 1000 initialModule))) ''id-1'')
       = [1000]"
  by (simp add: dispatchMessage_def startMonitoring_def initialModule_def valueOf_def
      startPerformanceMonitoring_def postDelayed_def Let_def run_def libraryThrowing_def
      libraryReturning_def sendEvent_def registered_def pendingTicks_def)

theorem C2_failed_tick_is_not_rescheduled_witness:
  "length (emitted (dispatchMessage exampleDevice (libraryThrowing ''boom'') 0
                     (snd (startMonitoring ''id-1'' [''CPU''] 1000 initialModule)))) = 1
   \<and> length (pendingTicks (dispatchMessage exampleDevice (libraryThrowing ''boom'') 0
                     (snd (startMonitoring ''id-1'' [''CPU''] 1000 initialModule))) ''id-1'') = 0
   \<and> length (pendingTicks (dispatchMessage exampleDevice (libraryReturning HIGH) 0
                     (snd (startMonitoring ''id-1'' [''CPU''] 1000 initialModule))) ''id-1'') = 1"
proof -
  note c = C2_failed_tick_is_not_rescheduled
  have e: "length (emitted (dispatchMessage exampleDevice (libraryThrowing ''boom'') 0
                     (snd (startMonitoring ''id-1'' [''CPU''] 1000 initialModule)))) = 1"
    using c by simp
  have f: "length (pendingTicks (dispatchMessage exampleDevice (libraryThrowing ''boom'') 0
                     (snd (startMonitoring ''id-1'' [''CPU''] 1000 initialModule))) ''id-1'') = 0"
    using c by simp
  have "length (map delayMillis
          (pendingTicks (dispatchMessage exampleDevice (libraryReturning HIGH) 0
             (snd (startMonitoring ''id-1'' [''CPU''] 1000 initialModule))) ''id-1''))
        = length [1000 :: int]"
    using c by (intro arg_cong [where f = length]) blast
  then have g: "length (pendingTicks (dispatchMessage exampleDevice (libraryReturning HIGH) 0
                     (snd (startMonitoring ''id-1'' [''CPU''] 1000 initialModule))) ''id-1'') = 1"
    by (simp only: length_map list.size One_nat_def add_0)
  from e f g show ?thesis by blast
qed

subsection \<open>C3: non-positive weights\<close>




subsection \<open>C4: capability filtering\<close>

text \<open>
  C4. For every requested list and every device, the supported classes are exactly the
  requested ones that the rule \<open>classSupported\<close> admits, in the order of the request, for
  the plain and for the weighted filter; the unsupported classes, which
  \<open>createPerformanceResult\<close> computes as the request minus the supported ones, are the
  others, again in the order of the request. The rule admits CPU, MEMORY and STORAGE on
  every device, NETWORK exactly from API level 23 with the network-state permission, and
  BATTERY exactly from API level 21.
\<close>

theorem C4_capability_filtering:
  "filterSupportedPerformanceClasses dev classes = filter (classSupported dev) classes
   \<and> listMinus classes (filterSupportedPerformanceClasses dev classes)
       = filter (\<lambda>c. \<not> classSupported dev c) classes
   \<and> subseq (filterSupportedPerformanceClasses dev classes) classes
   \<and> subseq (listMinus classes (filterSupportedPerformanceClasses dev classes)) classes
   \<and> filterSupportedWeightedPerformanceClasses dev ws
       = filter (\<lambda>p. classSupported dev (fst p)) ws
   \<and> subseq (filterSupportedWeightedPerformanceClasses dev ws) ws
   \<and> listMinus (map fst ws) (map fst (filterSupportedWeightedPerformanceClasses dev ws))
       = filter (\<lambda>c. \<not> classSupported dev c) (map fst ws)
   \<and> classSupported dev CPU \<and> classSupported dev MEMORY \<and> classSupported dev STORAGE
   \<and> (classSupported dev NETWORK \<longleftrightarrow> 23 \<le> SDK_INT dev \<and> networkStateGranted dev)
   \<and> (classSupported dev BATTERY \<longleftrightarrow> 21 \<le> SDK_INT dev)"
proof -
  have a: "filterSupportedPerformanceClasses dev classes = filter (classSupported dev) classes"
    by (rule filterSupported_eq)
  have b: "listMinus classes (filterSupportedPerformanceClasses dev classes)
       = filter (\<lambda>c. \<not> classSupported dev c) classes"
    by (simp add: a listMinus_filter)
  have c: "filterSupportedWeightedPerformanceClasses dev ws
       = filter (\<lambda>p. classSupported dev (fst p)) ws"
    by (rule filterSupportedWeighted_eq)
  have d: "listMinus (map fst ws) (map fst (filterSupportedWeightedPerformanceClasses dev ws))
       = filter (\<lambda>c. \<not> classSupported dev c) (map fst ws)"
    by (simp add: map_fst_filterSupportedWeighted filterSupported_eq listMinus_filter)
  have e: "classSupported dev CPU \<and> classSupported dev MEMORY \<and> classSupported dev STORAGE
   \<and> (classSupported dev NETWORK \<longleftrightarrow> 23 \<le> SDK_INT dev \<and> networkStateGranted dev)
   \<and> (classSupported dev BATTERY \<longleftrightarrow> 21 \<le> SDK_INT dev)"
    by (simp add: classSupported_def NETWORK_MONITORING_MIN_API_def BATTERY_STATS_MIN_API_def)
  show ?thesis
    unfolding b d using e by (simp add: a c)
qed

theorem C4_capability_filtering_witness:
  "filterSupportedPerformanceClasses exampleDevice [NETWORK, STORAGE, BATTERY, CPU]
     = [STORAGE, BATTERY, CPU]
   \<and> listMinus [NETWORK, STORAGE, BATTERY, CPU]
        (filterSupportedPerformanceClasses exampleDevice [NETWORK, STORAGE, BATTERY, CPU])
     = [NETWORK]
   \<and> filterSupportedWeightedPerformanceClasses exampleDevice [(NETWORK, Finite 2), (MEMORY, Finite 1)]
     = [(MEMORY, Finite 1)]"
  using C4_capability_filtering [of exampleDevice "[NETWORK, STORAGE, BATTERY, CPU]"
      "[(NETWORK, Finite 2), (MEMORY, Finite 1)]"]
  by (simp add: classSupported_def exampleDevice_def NETWORK_MONITORING_MIN_API_def
      BATTERY_STATS_MIN_API_def listMinus_def)

subsection \<open>C5: no supported class\<close>

text \<open>
  C5. When an initialised module has parsed the request of a one-shot evaluation, plain
  or weighted, and capability filtering leaves no class, the promise is rejected with
  the code \<open>NO_SUPPORTED_CLASSES\<close> and no scoring call is made, neither to the library nor
  to the fallback.
\<close>

theorem C5_no_supported_classes:
  "(parsePerformanceClasses performanceClasses = Inr classes
      \<and> filterSupportedPerformanceClasses dev classes = []
    \<longrightarrow> getPerformanceLevel True dev dd performanceClasses
          = (Reject ''NO_SUPPORTED_CLASSES''
               ''None of the requested performance classes are supported on this device'', []))
   \<and> (parseWeightedPerformanceClasses toFloat weightedParams = Inr weightedClasses
      \<and> filterSupportedWeightedPerformanceClasses dev weightedClasses = []
    \<longrightarrow> getWeightedPerformanceLevel toFloat True dev dd weightedParams
          = (Reject ''NO_SUPPORTED_CLASSES''
               ''None of the requested performance classes are supported on this device'', []))"
  by (simp add: getPerformanceLevel_def getWeightedPerformanceLevel_def)

theorem C5_no_supported_classes_witness:
  "parsePerformanceClasses [''NETWORK''] = Inr [NETWORK]
   \<and> filterSupportedPerformanceClasses exampleDevice [NETWORK] = []
   \<and> getPerformanceLevel True exampleDevice (libraryReturning EXCELLENT) [''NETWORK'']
       = (Reject ''NO_SUPPORTED_CLASSES''
            ''None of the requested performance classes are supported on this device'', [])
   \<and> parseWeightedPerformanceClasses binary32
        [\<lparr>getString_performanceClass = ''NETWORK'', getDouble_weight = Inr 2\<rparr>]
       = Inr [(NETWORK, Finite 2)]
   \<and> filterSupportedWeightedPerformanceClasses exampleDevice [(NETWORK, Finite 2)] = []
   \<and> getWeightedPerformanceLevel binary32 True exampleDevice (libraryReturning EXCELLENT)
        [\<lparr>getString_performanceClass = ''NETWORK'', getDouble_weight = Inr 2\<rparr>]
       = (Reject ''NO_SUPPORTED_CLASSES''
            ''None of the requested performance classes are supported on this device'', [])"
proof -
  have p: "parsePerformanceClasses [''NETWORK''] = Inr [NETWORK]"
    by (simp add: valueOf_def)
  have f: "filterSupportedPerformanceClasses exampleDevice [NETWORK] = []"
    by (simp add: filterSupportedPerformanceClasses_def exampleDevice_def)
  have pw: "parseWeightedPerformanceClasses binary32
        [\<lparr>getString_performanceClass = ''NETWORK'', getDouble_weight = Inr 2\<rparr>]
       = Inr [(NETWORK, Finite 2)]"
    by (simp add: valueOf_def binary32_examples)
  have fw: "filterSupportedWeightedPerformanceClasses exampleDevice [(NETWORK, Finite 2)] = []"
    by (simp add: filterSupportedWeightedPerformanceClasses_def exampleDevice_def)
  show ?thesis
    using p f pw fw
      C5_no_supported_classes [of "[''NETWORK'']" "[NETWORK]" exampleDevice
        "libraryReturning EXCELLENT" binary32
        "[\<lparr>getString_performanceClass = ''NETWORK'', getDouble_weight = Inr 2\<rparr>]"
        "[(NETWORK, Finite 2)]"]
    by (simp add: valueOf_def binary32_examples)
qed

subsection \<open>C6: the two lists of a result\<close>

text \<open>
  C6 as stated fails when the request names a class twice: the module keeps the request
  as a list and never removes a repetition, so for the request CPU, CPU the result lists
  CPU twice among the supported classes.
\<close>

theorem C6_counterexample:
  "is_Resolve (fst (getPerformanceLevel True exampleDevice (libraryReturning HIGH) [''CPU'', ''CPU'']))
   \<and> supportedClasses
        (resolved (fst (getPerformanceLevel True exampleDevice (libraryReturning HIGH)
                          [''CPU'', ''CPU''])))
       = [''CPU'', ''CPU'']
   \<and> unsupportedList
        (resolved (fst (getPerformanceLevel True exampleDevice (libraryReturning HIGH)
                          [''CPU'', ''CPU''])))
       = []
   \<and> count_list
        (supportedClasses
           (resolved (fst (getPerformanceLevel True exampleDevice (libraryReturning HIGH)
                             [''CPU'', ''CPU'']))
         ) @
         unsupportedList
           (resolved (fst (getPerformanceLevel True exampleDevice (libraryReturning HIGH)
                             [''CPU'', ''CPU'']))))
        ''CPU'' = 2"
  by (simp add: getPerformanceLevel_def valueOf_def filterSupportedPerformanceClasses_def
      libraryReturning_def createPerformanceResult_def unsupportedList_def listMinus_def Let_def)

text \<open>
  C6, amended. Every result that the native module resolves a one-shot evaluation with,
  plain or weighted, and every result that a session tick publishes, satisfies: the
  supported and the unsupported classes together are the requested classes (an absent
  \<open>unsupportedClasses\<close> key naming none), and no class is in both lists; when the
  request names no class twice, each requested class appears exactly once across the
  two lists; in general a class appears across the two lists as often as the request
  names it.
\<close>

theorem C6_result_partitions_request:
  "(fst (getPerformanceLevel i dev dd raw) = Resolve r1
      \<longrightarrow> set (supportedClasses r1) \<union> set (unsupportedList r1) = set raw
        \<and> set (supportedClasses r1) \<inter> set (unsupportedList r1) = {}
        \<and> (distinct raw
              \<longrightarrow> (\<forall>c\<in>set raw. count_list (supportedClasses r1 @ unsupportedList r1) c = 1))
        \<and> mset (supportedClasses r1) + mset (unsupportedList r1) = mset raw)
   \<and> (fst (getWeightedPerformanceLevel toFloat i dev dd params) = Resolve r2
      \<longrightarrow> set (supportedClasses r2) \<union> set (unsupportedList r2)
            = set (map getString_performanceClass params)
        \<and> set (supportedClasses r2) \<inter> set (unsupportedList r2) = {}
        \<and> (distinct (map getString_performanceClass params)
              \<longrightarrow> (\<forall>c\<in>set (map getString_performanceClass params).
                      count_list (supportedClasses r2 @ unsupportedList r2) c = 1))
        \<and> mset (supportedClasses r2) + mset (unsupportedList r2)
            = mset (map getString_performanceClass params))
   \<and> (emitted (run dev dd this st) = emitted st @ [(eventName, ResultParams r3)]
      \<longrightarrow> set (supportedClasses r3) \<union> set (unsupportedList r3) = set (requestedOf this)
        \<and> set (supportedClasses r3) \<inter> set (unsupportedList r3) = {}
        \<and> (distinct (requestedOf this)
              \<longrightarrow> (\<forall>c\<in>set (requestedOf this).
                      count_list (supportedClasses r3 @ unsupportedList r3) c = 1))
        \<and> mset (supportedClasses r3) + mset (unsupportedList r3) = mset (requestedOf this))"
proof (intro conjI impI)
  assume a: "fst (getPerformanceLevel i dev dd raw) = Resolve r1"
  from getPerformanceLevel_Resolve [OF a] obtain classes where
    c: "raw = map className classes"
       "supportedClasses r1 = map className (filter (classSupported dev) classes)"
       "unsupportedList r1 = map className (filter (\<lambda>c. \<not> classSupported dev c) classes)"
    by blast
  note p = partition_lists [OF c(2) c(3) c(1)]
  show "set (supportedClasses r1) \<union> set (unsupportedList r1) = set raw" by (rule p(1))
  show "set (supportedClasses r1) \<inter> set (unsupportedList r1) = {}" by (rule p(2))
  show "mset (supportedClasses r1) + mset (unsupportedList r1) = mset raw" by (rule p(3))
  show "\<forall>c\<in>set raw. count_list (supportedClasses r1 @ unsupportedList r1) c = 1"
    if "distinct raw"
    using that by (rule p(5))
next
  assume a: "fst (getWeightedPerformanceLevel toFloat i dev dd params) = Resolve r2"
  from getWeightedPerformanceLevel_Resolve [OF a] obtain classes where
    c: "map getString_performanceClass params = map className classes"
       "supportedClasses r2 = map className (filter (classSupported dev) classes)"
       "unsupportedList r2 = map className (filter (\<lambda>c. \<not> classSupported dev c) classes)"
    by blast
  note p = partition_lists [OF c(2) c(3) c(1)]
  show "set (supportedClasses r2) \<union> set (unsupportedList r2)
          = set (map getString_performanceClass params)"
    by (rule p(1))
  show "set (supportedClasses r2) \<inter> set (unsupportedList r2) = {}" by (rule p(2))
  show "mset (supportedClasses r2) + mset (unsupportedList r2)
          = mset (map getString_performanceClass params)"
    by (rule p(3))
  show "\<forall>c\<in>set (map getString_performanceClass params).
          count_list (supportedClasses r2 @ unsupportedList r2) c = 1"
    if "distinct (map getString_performanceClass params)"
    using that by (rule p(5))
next
  assume a: "emitted (run dev dd this st) = emitted st @ [(eventName, ResultParams r3)]"
  from tick_result [OF a] have s: "supportedClasses r3 = requestedOf this"
    and u: "unsupportedList r3 = []"
    by simp_all
  show "set (supportedClasses r3) \<union> set (unsupportedList r3) = set (requestedOf this)"
    by (simp add: s u)
  show "set (supportedClasses r3) \<inter> set (unsupportedList r3) = {}" by (simp add: s u)
  show "mset (supportedClasses r3) + mset (unsupportedList r3) = mset (requestedOf this)"
    by (simp add: s u)
  show "\<forall>c\<in>set (requestedOf this). count_list (supportedClasses r3 @ unsupportedList r3) c = 1"
    if d: "distinct (requestedOf this)"
  proof
    fix c assume "c \<in> set (requestedOf this)"
    then have "count (mset (requestedOf this)) c = 1"
      using d by (simp add: distinct_count_atmost_1)
    then show "count_list (supportedClasses r3 @ unsupportedList r3) c = 1"
      by (simp add: s u flip: count_mset)
  qed
qed

theorem C6_result_partitions_request_witness:
  "fst (getPerformanceLevel True exampleDevice (libraryReturning HIGH) [''NETWORK'', ''CPU''])
     = Resolve (createPerformanceResult exampleDevice HIGH [CPU] (Some [NETWORK, CPU]))
   \<and> fst (getWeightedPerformanceLevel binary32 True exampleDevice (libraryReturning HIGH)
            [\<lparr>getString_performanceClass = ''NETWORK'', getDouble_weight = Inr 2\<rparr>,
             \<lparr>getString_performanceClass = ''CPU'', getDouble_weight = Inr 1\<rparr>])
     = Resolve (createPerformanceResult exampleDevice HIGH [CPU] (Some [NETWORK, CPU]))
   \<and> emitted (run exampleDevice (libraryReturning HIGH)
                \<lparr>runnableRef = 1, r_monitoringId = ''id-1'', r_classes = Some [NETWORK, CPU],
                   r_weightedClasses = None, r_intervalMs = 1000, r_handler = 0\<rparr> initialModule)
     = emitted initialModule
       @ [(''DroidDex_Performance_id-1'',
           ResultParams (createPerformanceResult exampleDevice HIGH [NETWORK, CPU]
                           (Some [NETWORK, CPU])))]
   \<and> distinct [''NETWORK'', ''CPU'']
   \<and> set (supportedClasses (createPerformanceResult exampleDevice HIGH [CPU] (Some [NETWORK, CPU])))
       \<union> set (unsupportedList (createPerformanceResult exampleDevice HIGH [CPU] (Some [NETWORK, CPU])))
     = {''NETWORK'', ''CPU''}
   \<and> count_list
        (supportedClasses (createPerformanceResult exampleDevice HIGH [CPU] (Some [NETWORK, CPU]))
         @ unsupportedList (createPerformanceResult exampleDevice HIGH [CPU] (Some [NETWORK, CPU])))
        ''NETWORK'' = 1
   \<and> count_list
        (supportedClasses
           (createPerformanceResult exampleDevice HIGH [NETWORK, CPU] (Some [NETWORK, CPU]))
         @ unsupportedList
             (createPerformanceResult exampleDevice HIGH [NETWORK, CPU] (Some [NETWORK, CPU])))
        ''CPU'' = 1"
proof -
  let ?r = "createPerformanceResult exampleDevice HIGH [CPU] (Some [NETWORK, CPU])"
  let ?t = "createPerformanceResult exampleDevice HIGH [NETWORK, CPU] (Some [NETWORK, CPU])"
  let ?session = "\<lparr>runnableRef = 1, r_monitoringId = ''id-1'', r_classes = Some [NETWORK, CPU],
                 r_weightedClasses = None, r_intervalMs = 1000, r_handler = 0\<rparr>
               :: float32 Runnable"
  let ?params = "[\<lparr>getString_performanceClass = ''NETWORK'', getDouble_weight = Inr 2\<rparr>,
                  \<lparr>getString_performanceClass = ''CPU'', getDouble_weight = Inr 1\<rparr>]
                 :: rat WeightedParam list"
  have a: "fst (getPerformanceLevel True exampleDevice (libraryReturning HIGH) [''NETWORK'', ''CPU''])
     = Resolve ?r"
    by (simp add: getPerformanceLevel_def valueOf_def filterSupportedPerformanceClasses_def
        libraryReturning_def exampleDevice_def Let_def)
  have b: "fst (getWeightedPerformanceLevel binary32 True exampleDevice (libraryReturning HIGH) ?params)
     = Resolve ?r"
    by (simp add: getWeightedPerformanceLevel_def valueOf_def binary32_examples
        filterSupportedWeightedPerformanceClasses_def libraryReturning_def exampleDevice_def Let_def)
  have c: "emitted (run exampleDevice (libraryReturning HIGH) ?session initialModule)
     = emitted initialModule @ [(''DroidDex_Performance_id-1'', ResultParams ?t)]"
    by (simp add: run_def libraryReturning_def sendEvent_def postDelayed_def Let_def)
  have d: "distinct [''NETWORK'', ''CPU'']" by simp
  have q: "requestedOf ?session = [''NETWORK'', ''CPU'']"
    and m: "map getString_performanceClass ?params = [''NETWORK'', ''CPU'']"
    by (simp_all add: requestedOf_def)
  note t = C6_result_partitions_request [of True exampleDevice "libraryReturning HIGH"
        "[''NETWORK'', ''CPU'']" ?r binary32 ?params ?r ?session initialModule
        "''DroidDex_Performance_id-1''" ?t]
  from t a b c d have
    u: "set (supportedClasses ?r) \<union> set (unsupportedList ?r) = set [''NETWORK'', ''CPU'']"
    and v: "\<forall>c\<in>set [''NETWORK'', ''CPU'']. count_list (supportedClasses ?r @ unsupportedList ?r) c = 1"
    and w: "\<forall>c\<in>set (requestedOf ?session). count_list (supportedClasses ?t @ unsupportedList ?t) c = 1"
    unfolding q m by blast+
  have v': "count_list (supportedClasses ?r @ unsupportedList ?r) ''NETWORK'' = 1"
    using v by simp
  have w': "count_list (supportedClasses ?t @ unsupportedList ?t) ''CPU'' = 1"
    using w unfolding q by simp
  have u': "set (supportedClasses ?r) \<union> set (unsupportedList ?r) = {''NETWORK'', ''CPU''}"
    using u by simp
  from a b c d u' v' w' show ?thesis by (simp only: simp_thms)
qed

subsection \<open>C7: the weighted fallback\<close>

text \<open>
  C7. The weighted fallback returns the level of the unweighted fallback on the same
  device, whatever classes and weights it is given: the level depends on the device
  only. An evaluation calls a fallback at most once; when the library throws on the
  supported weighted classes, the evaluation resolves with the device's fallback level
  after exactly one call of the library and one call of the fallback.
\<close>

theorem C7_weighted_fallback_ignores_weights:
  "getFallbackWeightedPerformanceLevel dev weightedClasses = getFallbackPerformanceLevel dev classes
   \<and> getFallbackWeightedPerformanceLevel dev weightedClasses = levelOfScore (fallbackScore dev)
   \<and> length (filter isFallbackCall (snd (getWeightedPerformanceLevel toFloat i dev dd params))) \<le> 1
   \<and> length (filter isFallbackCall (snd (getPerformanceLevel i dev dd raw))) \<le> 1
   \<and> (parseWeightedPerformanceClasses toFloat params = Inr parsed
        \<and> filterSupportedWeightedPerformanceClasses dev parsed = supported \<and> supported \<noteq> []
        \<and> ddGetWeightedPerformanceLevel dd supported = Inl e
      \<longrightarrow> is_Resolve (fst (getWeightedPerformanceLevel toFloat True dev dd params))
          \<and> level (resolved (fst (getWeightedPerformanceLevel toFloat True dev dd params)))
              = getFallbackPerformanceLevel dev classes
          \<and> snd (getWeightedPerformanceLevel toFloat True dev dd params)
              = [DroidDexGetWeightedPerformanceLevel supported,
                 FallbackWeightedPerformanceLevel supported])"
proof -
  have a: "getFallbackWeightedPerformanceLevel dev weightedClasses = levelOfScore (fallbackScore dev)"
    by (simp add: getFallbackWeightedPerformanceLevel_def getFallbackPerformanceLevel_def)
  have b: "getFallbackPerformanceLevel dev classes = levelOfScore (fallbackScore dev)"
    by (simp add: getFallbackPerformanceLevel_def)
  have c: "parseWeightedPerformanceClasses toFloat params = Inr parsed
        \<and> filterSupportedWeightedPerformanceClasses dev parsed = supported \<and> supported \<noteq> []
        \<and> ddGetWeightedPerformanceLevel dd supported = Inl e
      \<longrightarrow> is_Resolve (fst (getWeightedPerformanceLevel toFloat True dev dd params))
          \<and> level (resolved (fst (getWeightedPerformanceLevel toFloat True dev dd params)))
              = getFallbackPerformanceLevel dev classes
          \<and> snd (getWeightedPerformanceLevel toFloat True dev dd params)
              = [DroidDexGetWeightedPerformanceLevel supported,
                 FallbackWeightedPerformanceLevel supported]"
    by (auto simp add: getWeightedPerformanceLevel_def createPerformanceResult_def Let_def
        getFallbackWeightedPerformanceLevel_def getFallbackPerformanceLevel_def)
  show ?thesis
    using a b c fallback_calls_weighted [of toFloat i dev dd params]
      fallback_calls_unweighted [of i dev dd raw]
    by simp
qed

theorem C7_weighted_fallback_ignores_weights_witness:
  "parseWeightedPerformanceClasses binary32
      [\<lparr>getString_performanceClass = ''MEMORY'', getDouble_weight = Inr 5\<rparr>,
         \<lparr>getString_performanceClass = ''CPU'', getDouble_weight = Inr 1\<rparr>]
     = Inr [(MEMORY, Finite 5), (CPU, Finite 1)]
   \<and> filterSupportedWeightedPerformanceClasses exampleDevice [(MEMORY, Finite 5), (CPU, Finite 1)]
     = [(MEMORY, Finite 5), (CPU, Finite 1)]
   \<and> ddGetWeightedPerformanceLevel (libraryThrowing ''boom'') [(MEMORY, Finite 5), (CPU, Finite 1)]
     = Inl (Exception (Some ''boom''))
   \<and> level (resolved (fst (getWeightedPerformanceLevel binary32 True exampleDevice (libraryThrowing ''boom'')
        [\<lparr>getString_performanceClass = ''MEMORY'', getDouble_weight = Inr 5\<rparr>,
         \<lparr>getString_performanceClass = ''CPU'', getDouble_weight = Inr 1\<rparr>])))
     = HIGH
   \<and> getFallbackPerformanceLevel exampleDevice [STORAGE] = HIGH
   \<and> snd (getWeightedPerformanceLevel binary32 True exampleDevice (libraryThrowing ''boom'')
        [\<lparr>getString_performanceClass = ''MEMORY'', getDouble_weight = Inr 5\<rparr>,
         \<lparr>getString_performanceClass = ''CPU'', getDouble_weight = Inr 1\<rparr>])
     = [DroidDexGetWeightedPerformanceLevel [(MEMORY, Finite 5), (CPU, Finite 1)],
        FallbackWeightedPerformanceLevel [(MEMORY, Finite 5), (CPU, Finite 1)]]"
proof -
  have p: "parseWeightedPerformanceClasses binary32
      [\<lparr>getString_performanceClass = ''MEMORY'', getDouble_weight = Inr 5\<rparr>,
         \<lparr>getString_performanceClass = ''CPU'', getDouble_weight = Inr 1\<rparr>]
     = Inr [(MEMORY, Finite 5), (CPU, Finite 1)]"
    by (simp add: valueOf_def binary32_examples)
  have f: "filterSupportedWeightedPerformanceClasses exampleDevice [(MEMORY, Finite 5), (CPU, Finite 1)]
     = [(MEMORY, Finite 5), (CPU, Finite 1)]"
    by (simp add: filterSupportedWeightedPerformanceClasses_def)
  have t: "ddGetWeightedPerformanceLevel (libraryThrowing ''boom'') [(MEMORY, Finite 5), (CPU, Finite 1)]
     = Inl (Exception (Some ''boom''))"
    by (simp add: libraryThrowing_def)
  have h: "getFallbackPerformanceLevel exampleDevice [STORAGE] = HIGH"
    by (simp add: getFallbackPerformanceLevel_def levelOfScore_def fallbackScore_def
        memoryScore_def cpuScore_def versionScore_def exampleDevice_def)
  note c = C7_weighted_fallback_ignores_weights [of exampleDevice "[]" "[STORAGE]" binary32 True
        "libraryThrowing ''boom''"
        "[\<lparr>getString_performanceClass = ''MEMORY'', getDouble_weight = Inr 5\<rparr>,
          \<lparr>getString_performanceClass = ''CPU'', getDouble_weight = Inr 1\<rparr>]"
        "[]" "[(MEMORY, Finite 5), (CPU, Finite 1)]" "[(MEMORY, Finite 5), (CPU, Finite 1)]"
        "Exception (Some ''boom'')"]
  from c p f t have r:
    "level (resolved (fst (getWeightedPerformanceLevel binary32 True exampleDevice
        (libraryThrowing ''boom'')
        [\<lparr>getString_performanceClass = ''MEMORY'', getDouble_weight = Inr 5\<rparr>,
         \<lparr>getString_performanceClass = ''CPU'', getDouble_weight = Inr 1\<rparr>])))
       = getFallbackPerformanceLevel exampleDevice [STORAGE]
     \<and> snd (getWeightedPerformanceLevel binary32 True exampleDevice (libraryThrowing ''boom'')
        [\<lparr>getString_performanceClass = ''MEMORY'', getDouble_weight = Inr 5\<rparr>,
         \<lparr>getString_performanceClass = ''CPU'', getDouble_weight = Inr 1\<rparr>])
       = [DroidDexGetWeightedPerformanceLevel [(MEMORY, Finite 5), (CPU, Finite 1)],
          FallbackWeightedPerformanceLevel [(MEMORY, Finite 5), (CPU, Finite 1)]]"
    by blast
  from p f t h r show ?thesis by (simp only: simp_thms)
qed

subsection \<open>C8: listeners\<close>

text \<open>
  C8, at a concrete sequence on Android. After one registration for the id \<open>s1\<close>, one
  result event calls the listener once. After a second registration for the same id the
  map holds the second listener only, but the emitter holds two subscriptions for the
  event name, and one event calls the second listener twice. After
  \<open>removePerformanceListener\<close> the map holds no listener for the id, the emitter holds no
  subscription, and an event calls nothing.
\<close>

theorem C8_second_registration_doubles_the_call:
  "invoked (emit ''DroidDex_Performance_s1'' (ResultParams (createPerformanceResult exampleDevice HIGH [CPU] (Some [CPU])))
             (addPerformanceListener ''s1'' 1 (loadModule ''android'')))
     = [(1, ResultParams (createPerformanceResult exampleDevice HIGH [CPU] (Some [CPU])))]
   \<and> performanceListeners
        (addPerformanceListener ''s1'' 2 (addPerformanceListener ''s1'' 1 (loadModule ''android'')))
        ''s1'' = Some 2
   \<and> eventEmitter
        (addPerformanceListener ''s1'' 2 (addPerformanceListener ''s1'' 1 (loadModule ''android'')))
     = Some [(''DroidDex_Performance_s1'', PerformanceCallback ''s1''),
             (''DroidDex_Performance_s1'', PerformanceCallback ''s1'')]
   \<and> invoked (emit ''DroidDex_Performance_s1'' (ResultParams (createPerformanceResult exampleDevice HIGH [CPU] (Some [CPU])))
               (addPerformanceListener ''s1'' 2
                  (addPerformanceListener ''s1'' 1 (loadModule ''android''))))
     = [(2, ResultParams (createPerformanceResult exampleDevice HIGH [CPU] (Some [CPU]))),
        (2, ResultParams (createPerformanceResult exampleDevice HIGH [CPU] (Some [CPU])))]
   \<and> invoked (emit ''DroidDex_Error_s1'' (ErrorParams ''boom'')
               (addErrorListener ''s1'' 4 (addErrorListener ''s1'' 3 (loadModule ''android''))))
     = [(4, ErrorParams ''boom''), (4, ErrorParams ''boom'')]
   \<and> performanceListeners
        (removePerformanceListener ''s1''
           (addPerformanceListener ''s1'' 2
              (addPerformanceListener ''s1'' 1 (loadModule ''android''))))
        ''s1'' = None
   \<and> invoked (emit ''DroidDex_Performance_s1'' (ResultParams (createPerformanceResult exampleDevice HIGH [CPU] (Some [CPU])))
               (removePerformanceListener ''s1''
                  (addPerformanceListener ''s1'' 2
                     (addPerformanceListener ''s1'' 1 (loadModule ''android'')))))
     = []"
  by (simp add: emit_def addPerformanceListener_def addErrorListener_def
      removePerformanceListener_def loadModule_def)

theorem C8_second_registration_doubles_the_call_witness:
  "length (invoked (emit ''DroidDex_Performance_s1'' (ResultParams (createPerformanceResult exampleDevice HIGH [CPU] (Some [CPU])))
             (addPerformanceListener ''s1'' 1 (loadModule ''android'')))) = 1
   \<and> length (invoked (emit ''DroidDex_Performance_s1'' (ResultParams (createPerformanceResult exampleDevice HIGH [CPU] (Some [CPU])))
               (addPerformanceListener ''s1'' 2
                  (addPerformanceListener ''s1'' 1 (loadModule ''android''))))) = 2"
  using C8_second_registration_doubles_the_call by simp

subsection \<open>C9: stopping sessions\<close>

text \<open>
  C9. \<open>stopMonitoring\<close> resolves with true exactly when the session is registered, and
  the session is not registered afterwards; a second call with the same id resolves with
  false and leaves the state as it was. \<open>stopAllMonitoring\<close> empties both maps of the
  registry, so that \<open>stopMonitoring\<close> resolves with false for any id afterwards. None of
  these calls rejects its promise.
\<close>

theorem C9_stop_monitoring:
  "fst (stopMonitoring mid st) = Resolve (registered st mid)
   \<and> \<not> registered (snd (stopMonitoring mid st)) mid
   \<and> stopMonitoring mid (snd (stopMonitoring mid st))
       = (Resolve False, snd (stopMonitoring mid st))
   \<and> fst (stopAllMonitoring st) = Resolve True
   \<and> monitoringHandlers (snd (stopAllMonitoring st)) = []
   \<and> monitoringRunnables (snd (stopAllMonitoring st)) = []
   \<and> fst (stopMonitoring other (snd (stopAllMonitoring st))) = Resolve False"
  using stop_result [of mid st] stop_unregisters [of mid st] stop_twice [of mid st]
    stopAll_empties [of st] stop_after_stopAll [of other st]
  by simp

theorem C9_stop_monitoring_witness:
  "registered (snd (startMonitoring ''id-1'' [''CPU''] 1000 initialModule)) ''id-1''
   \<and> fst (stopMonitoring ''id-1'' (snd (startMonitoring ''id-1'' [''CPU''] 1000 initialModule)))
       = Resolve True
   \<and> fst (stopMonitoring ''id-1''
            (snd (stopMonitoring ''id-1''
                    (snd (startMonitoring ''id-1'' [''CPU''] 1000 initialModule)))))
       = Resolve False
   \<and> fst (stopMonitoring ''id-1''
            (snd (stopAllMonitoring (snd (startMonitoring ''id-1'' [''CPU''] 1000 initialModule)))))
       = Resolve False"
proof -
  have r: "registered (snd (startMonitoring ''id-1'' [''CPU''] 1000 initialModule)) ''id-1''"
    by (simp add: registered_def startMonitoring_def initialModule_def valueOf_def
        startPerformanceMonitoring_def postDelayed_def Let_def)
  show ?thesis
    using r C9_stop_monitoring [of "''id-1''"
        "snd (startMonitoring ''id-1'' [''CPU''] 1000 initialModule)" "''id-1''"]
    by simp
qed

subsection \<open>C10: the default result of the facade\<close>

text \<open>
  C10, at concrete calls. With production mode disabled on Android, and on a platform
  other than Android, the two one-shot calls of the facade do not call the native
  module, but they do not resolve with the default result either:
  \<open>getDefaultPerformanceResult\<close> evaluates \<open>PerformanceLevel.HIGH\<close>, and
  \<open>PerformanceLevel\<close> is named by the \<open>import type\<close> of \<open>index.ts\<close> only, so the call
  throws a \<open>ReferenceError\<close> before any promise exists. On Android with production mode
  off the call goes to the native module.
\<close>

theorem C10_default_result_throws:
  "''PerformanceLevel'' \<in> set typeImports
   \<and> ''PerformanceLevel'' \<notin> set valueImports
   \<and> getDefaultPerformanceResult 7 (Some [''CPU'', ''NETWORK''])
       = Inl (ReferenceError ''PerformanceLevel'')
   \<and> getPerformanceLevel_ts 7 (disableForProduction True (loadModule ''android''))
        [''CPU'', ''NETWORK'']
       = Throws (ReferenceError ''PerformanceLevel'')
   \<and> getWeightedPerformanceLevel_ts 7 (disableForProduction True (loadModule ''android''))
        [\<lparr>performanceClass = ''MEMORY'', weight = 2\<rparr>]
       = Throws (ReferenceError ''PerformanceLevel'')
   \<and> getPerformanceLevel_ts 7 (loadModule ''ios'') [''CPU'', ''NETWORK'']
       = Throws (ReferenceError ''PerformanceLevel'')
   \<and> getWeightedPerformanceLevel_ts 7 (loadModule ''ios'')
        [\<lparr>performanceClass = ''MEMORY'', weight = 2\<rparr>]
       = Throws (ReferenceError ''PerformanceLevel'')
   \<and> getPerformanceLevel_ts 7 (loadModule ''android'') [''CPU'', ''NETWORK'']
       = NativeCall (NativeGetPerformanceLevel [''CPU'', ''NETWORK''])"
  by (simp add: getPerformanceLevel_ts_def getWeightedPerformanceLevel_ts_def
      getDefaultPerformanceResult_def valueImports_def typeImports_def
      disableForProduction_def loadModule_def)

theorem C10_default_result_throws_witness:
  "getPerformanceLevel_ts 7 (disableForProduction True (loadModule ''android''))
        [''CPU'', ''NETWORK'']
     \<noteq> NativeCall (NativeGetPerformanceLevel [''CPU'', ''NETWORK''])
   \<and> getPerformanceLevel_ts 7 (loadModule ''ios'') [''CPU'', ''NETWORK'']
     \<noteq> NativeCall (NativeGetPerformanceLevel [''CPU'', ''NETWORK''])"
  using C10_default_result_throws by simp

end
